theory Spec2Isabelle
  imports Main
begin

section \<open>JavaScript values\<close>

text \<open>
  The dispatcher of \<^verbatim>\<open>src/packages/did-key.js/src/index.ts\<close> handles keys, JSON Web Keys and
  DID documents as untyped JavaScript objects (\<^verbatim>\<open>any\<close>). They are modelled by the JSON
  values together with \<^verbatim>\<open>undefined\<close>. An object is the list of its own properties in
  insertion order; it is only ever observed through property reads.
\<close>

datatype jsval =
    JUndefined
  | JNull
  | JBool bool
  | JNum int
  | JStr string
  | JArr "jsval list"
  | JObj "(string \<times> jsval) list"

text \<open>
  Failures. \<open>Error msg\<close> is a \<^verbatim>\<open>throw new Error(msg)\<close> written in the source, with its
  message. \<open>TypeError e\<close> is the exception the runtime raises by itself when the expression
  \<open>e\<close> of the source reads a property of \<^verbatim>\<open>undefined\<close>/\<^verbatim>\<open>null\<close> or calls something that
  is not a function; the source has no \<^verbatim>\<open>try\<close>, so either one rejects the whole call.
\<close>

datatype error = Error string | TypeError string

definition and_then :: "error + 'a \<Rightarrow> ('a \<Rightarrow> error + 'b) \<Rightarrow> error + 'b" where
  "and_then m f = (case m of Inl e \<Rightarrow> Inl e | Inr v \<Rightarrow> f v)"

text \<open>The operand test of \<^verbatim>\<open>||\<close> and \<^verbatim>\<open>!\<close>.\<close>

fun truthy :: "jsval \<Rightarrow> bool" where
  "truthy JUndefined = False"
| "truthy JNull = False"
| "truthy (JBool b) = b"
| "truthy (JNum n) = (n \<noteq> 0)"
| "truthy (JStr s) = (s \<noteq> [])"
| "truthy (JArr vs) = True"
| "truthy (JObj ps) = True"

text \<open>
  The property read \<^verbatim>\<open>o.p\<close>, for the property names this program reads (\<^verbatim>\<open>type\<close>,
  \<^verbatim>\<open>id\<close>, \<^verbatim>\<open>controller\<close>, \<^verbatim>\<open>publicKeyJwk\<close>, \<^verbatim>\<open>kid\<close>, \<^verbatim>\<open>kty\<close>, \<^verbatim>\<open>crv\<close>,
  \<^verbatim>\<open>verificationMethod\<close>), none of which a primitive, an array or \<^verbatim>\<open>Object.prototype\<close>
  defines: reading from \<^verbatim>\<open>undefined\<close> or \<^verbatim>\<open>null\<close> raises, a missing property reads as
  \<^verbatim>\<open>undefined\<close>. The first argument is the source text of the read, for the error.
\<close>

fun get_prop :: "string \<Rightarrow> jsval \<Rightarrow> string \<Rightarrow> error + jsval" where
  "get_prop e JUndefined p = Inl (TypeError e)"
| "get_prop e JNull p = Inl (TypeError e)"
| "get_prop e (JObj ps) p = Inr (case map_of ps p of Some v \<Rightarrow> v | None \<Rightarrow> JUndefined)"
| "get_prop e v p = Inr JUndefined"

text \<open>
  Strict equality \<^verbatim>\<open>===\<close>. Primitives compare by value; objects and arrays compare by
  reference, and the two sides of the one use in the source (a caller's key against a
  resolved verification method) are never the same reference.
\<close>

fun strict_eq :: "jsval \<Rightarrow> jsval \<Rightarrow> bool" where
  "strict_eq (JArr a) v = False"
| "strict_eq (JObj a) v = False"
| "strict_eq u v = (u = v)"

text \<open>Setting a property in an object literal: an existing name keeps its place.\<close>

fun define_prop :: "(string \<times> jsval) list \<Rightarrow> string \<Rightarrow> jsval \<Rightarrow> (string \<times> jsval) list" where
  "define_prop [] k v = [(k, v)]"
| "define_prop ((k', v') # ps) k v =
     (if k' = k then (k, v) # ps else (k', v') # define_prop ps k v)"

fun digits :: "nat \<Rightarrow> string" where
  "digits n =
     (if n < 10 then [char_of (n + 48)]
      else digits (n div 10) @ [char_of (n mod 10 + 48)])"

text \<open>
  The own enumerable properties a spread \<^verbatim>\<open>...v\<close> copies: those of an object, the indexed
  elements of an array, the indexed characters of a string, and none of any other value
  (\<^verbatim>\<open>undefined\<close> and \<^verbatim>\<open>null\<close> included).
\<close>

fun own_props :: "jsval \<Rightarrow> (string \<times> jsval) list" where
  "own_props (JObj ps) = ps"
| "own_props (JArr vs) = zip (map digits [0 ..< length vs]) vs"
| "own_props (JStr s) = zip (map digits [0 ..< length s]) (map (\<lambda>c. JStr [c]) s)"
| "own_props v = []"

definition spread :: "(string \<times> jsval) list \<Rightarrow> jsval \<Rightarrow> (string \<times> jsval) list" where
  "spread ps v = foldl (\<lambda>acc kv. define_prop acc (fst kv) (snd kv)) ps (own_props v)"

text \<open>
  \<^verbatim>\<open>JSON.parse(JSON.stringify(v))\<close> on these values: a property whose value is
  \<^verbatim>\<open>undefined\<close> is dropped, an \<^verbatim>\<open>undefined\<close> array element becomes \<^verbatim>\<open>null\<close>.
\<close>

fun json_clone :: "jsval \<Rightarrow> jsval" where
  "json_clone (JObj ps) =
     JObj (map (\<lambda>kv. (fst kv, json_clone (snd kv))) (filter (\<lambda>kv. snd kv \<noteq> JUndefined) ps))"
| "json_clone (JArr vs) = JArr (map (\<lambda>v. if v = JUndefined then JNull else json_clone v) vs)"
| "json_clone v = v"


section \<open>The type registry\<close>

text \<open>The five handler packages the source imports.\<close>

datatype handler_module = ed25519 | x25519 | secp256k1 | bls12381 | web

definition typeMap :: "(string \<times> handler_module) list" where
  "typeMap =
     [(''ed25519'', ed25519),
      (''x25519'', x25519),
      (''secp256k1'', secp256k1),
      (''bls12381'', bls12381),
      (''secp256r1'', web),
      (''secp384r1'', web),
      (''secp521r1'', web)]"

definition startsWithMap :: "(string \<times> handler_module) list" where
  "startsWithMap =
     [(''did:key:z6Mk'', ed25519),
      (''did:key:z6LS'', x25519),
      (''did:key:zQ3s'', secp256k1),
      (''did:key:z5Tc'', bls12381),
      (''did:key:zUC7'', bls12381),
      (''did:key:zDna'', web),
      (''did:key:z82L'', web),
      (''did:key:z2J9'', web)]"

text \<open>
  Both tables are object literals, and the source probes them with \<^verbatim>\<open>table[key]\<close>. That
  read also finds what every object literal inherits from \<^verbatim>\<open>Object.prototype\<close>: for the
  names below it yields a function (for \<^verbatim>\<open>__proto__\<close> the prototype object), which is
  truthy and is not a handler.
\<close>

definition object_prototype_names :: "string list" where
  "object_prototype_names =
     [''constructor'', ''__proto__'', ''hasOwnProperty'', ''isPrototypeOf'',
      ''propertyIsEnumerable'', ''toLocaleString'', ''toString'', ''valueOf'',
      ''__defineGetter__'', ''__defineSetter__'', ''__lookupGetter__'', ''__lookupSetter__'']"

datatype table_entry = Handler handler_module | Inherited | Undefined

definition table_get :: "(string \<times> handler_module) list \<Rightarrow> string \<Rightarrow> table_entry" where
  "table_get table key =
     (case map_of table key of
        Some m \<Rightarrow> Handler m
      | None \<Rightarrow> if key \<in> set object_prototype_names then Inherited else Undefined)"

section \<open>Handlers\<close>

text \<open>
  The handler packages are not part of the repository; the dispatcher only calls them. They
  are a parameter of every operation: what each package's \<^verbatim>\<open>generate\<close> and \<^verbatim>\<open>resolve\<close>
  return (or raise), what a key-pair class does on \<^verbatim>\<open>from\<close> and \<^verbatim>\<open>export\<close>, and the two
  library functions \<^verbatim>\<open>JSON.stringify\<close> and \<^verbatim>\<open>base64url.encode\<close>.
  \<open>'g\<close> is the type of the caller's generate options, \<open>'r\<close> of the value passed as
  resolution options to \<^verbatim>\<open>generate\<close>, \<open>'h\<close> of an imported key pair.
\<close>

datatype 'g correct_options =
    Caller 'g
  | KtyCrv string string

record DidGeneration =
  keys :: "jsval list"
  didDocument :: jsval

datatype DidResolution = DidResolution (resolved: jsval)

datatype KeyPairClass =
    Secp256k1KeyPair
  | Ed25519KeyPair
  | X25519KeyPair
  | Bls12381G1KeyPair
  | Bls12381G2KeyPair
  | WebCryptoKey

record ('g, 'r, 'h) handlers =
  module_generate :: "handler_module \<Rightarrow> 'g correct_options \<Rightarrow> 'r \<Rightarrow> error + DidGeneration"
  module_resolve :: "handler_module \<Rightarrow> string \<Rightarrow> jsval \<Rightarrow> error + DidResolution"
  KeyPair_from :: "KeyPairClass \<Rightarrow> jsval \<Rightarrow> error + 'h"
  KeyPair_export :: "'h \<Rightarrow> jsval \<Rightarrow> error + jsval"
  JSON_stringify :: "jsval \<Rightarrow> string"
  base64url_encode :: "string \<Rightarrow> string"

section \<open>The dispatcher\<close>

definition noSupportForSeed :: "string list" where
  "noSupportForSeed = [''secp256r1'', ''secp384r1'', ''secp521r1'']"

definition getOptionsForType :: "string \<Rightarrow> error + 'g correct_options" where
  "getOptionsForType type =
     (if type = ''secp256r1'' then Inr (KtyCrv ''EC'' ''P-256'')
      else if type = ''secp384r1'' then Inr (KtyCrv ''EC'' ''P-384'')
      else if type = ''secp521r1'' then Inr (KtyCrv ''EC'' ''P-521'')
      else Inl (Error (''No options for type: '' @ type)))"

definition generate ::
  "('g, 'r, 'h) handlers \<Rightarrow> string \<Rightarrow> 'g \<Rightarrow> 'r \<Rightarrow> error + DidGeneration" where
  "generate H type generateOptions resolutionOptions =
     (case table_get typeMap type of
        Undefined \<Rightarrow> Inl (Error (''did-key.js does not support: '' @ type))
      | entry \<Rightarrow>
          and_then
            (if type \<in> set noSupportForSeed then getOptionsForType type
             else Inr (Caller generateOptions))
            (\<lambda>correctOptions.
               case entry of
                 Handler m \<Rightarrow> module_generate H m correctOptions resolutionOptions
               | _ \<Rightarrow> Inl (TypeError ''typeMap[type].generate'')))"

text \<open>\<^verbatim>\<open>did.substring(0, 12)\<close> is the whole string when it is shorter.\<close>

definition resolve ::
  "('g, 'r, 'h) handlers \<Rightarrow> string \<Rightarrow> jsval \<Rightarrow> error + DidResolution" where
  "resolve H did resolutionOptions =
     (let startsWith = take 12 did in
      case table_get startsWithMap startsWith of
        Undefined \<Rightarrow> Inl (Error (''did-key.js does not support: '' @ startsWith @ ''...''))
      | Inherited \<Rightarrow> Inl (TypeError ''startsWithMap[startsWith].resolve'')
      | Handler m \<Rightarrow> module_resolve H m did resolutionOptions)"


section \<open>The did:jwk document synthesizer\<close>

text \<open>
  The argument of \<^verbatim>\<open>generate2\<close>, with the three fields the function reads. The whole
  object is also what \<^verbatim>\<open>generate2\<close> passes on as resolution options.
\<close>

record options =
  type :: string
  seed :: jsval
  kid :: jsval

text \<open>
  The generate options built by \<^verbatim>\<open>generate2\<close>: the object
  \<^verbatim>\<open>{secureRandom: () => Buffer.from(options.seed, 'hex')}\<close>, given by the seed it captures.
\<close>

datatype secure_random = SecureRandom jsval

text \<open>\<^verbatim>\<open>s.split(':').pop()\<close>: what follows the last colon, the whole string if there is none.\<close>

definition split_pop :: "string \<Rightarrow> string" where
  "split_pop s = rev (takeWhile (\<lambda>c. c \<noteq> CHR '':'') (rev s))"

definition generate2 ::
  "(secure_random, 'z options_scheme, 'h) handlers \<Rightarrow> 'z options_scheme \<Rightarrow> error + DidGeneration" where
  "generate2 H options =
     and_then (generate H (type options) (SecureRandom (seed options)) options) (\<lambda>generated.
     let key = (case keys generated of [] \<Rightarrow> JUndefined | k # ks \<Rightarrow> k) in
     and_then (get_prop ''key.publicKeyJwk'' key ''publicKeyJwk'') (\<lambda>publicKeyJwk.
     and_then
       (if truthy (kid options) then Inr (kid options)
        else and_then (get_prop ''publicKeyJwk.kid'' publicKeyJwk ''kid'') (\<lambda>jwk_kid.
          if truthy jwk_kid then Inr jwk_kid
          else and_then (get_prop ''keys[0].controller'' key ''controller'') (\<lambda>controller.
            case controller of
              JStr c \<Rightarrow> Inr (JStr (split_pop c))
            | _ \<Rightarrow> Inl (TypeError ''keys[0].controller.split''))))
       (\<lambda>kid.
          let jwk = JObj (spread [(''kid'', kid)] publicKeyJwk);
              did = ''did:jwk:'' @ base64url_encode H (JSON_stringify H jwk);
              didUrl = did;
              newDoc = JObj
                [(''id'', JStr did),
                 (''verificationMethod'',
                    JArr [JObj [(''id'', JStr didUrl),
                                (''type'', JStr ''JsonWebKey2020''),
                                (''controller'', JStr did),
                                (''publicKeyJwk'', jwk)]]),
                 (''authentication'', JArr [JStr didUrl]),
                 (''capabilityInvocation'', JArr [JStr didUrl]),
                 (''capabilityDelegation'', JArr [JStr didUrl]),
                 (''keyAgreement'', JArr [JStr didUrl])];
              newKeys = map (\<lambda>k. JObj (spread [(''id'', JStr didUrl), (''controller'', JStr did)] k)) [key]
          in Inr \<lparr>keys = newKeys, didDocument = json_clone newDoc\<rparr>)))"

section \<open>The curve classifier\<close>

definition getKeyPairClassFromKey :: "jsval \<Rightarrow> error + KeyPairClass" where
  "getKeyPairClassFromKey k =
     and_then (get_prop ''k.type'' k ''type'') (\<lambda>t.
     if t = JStr ''JsonWebKey2020'' then
       and_then (get_prop ''k.publicKeyJwk'' k ''publicKeyJwk'') (\<lambda>publicKeyJwk.
       and_then (get_prop ''k.publicKeyJwk.kty'' publicKeyJwk ''kty'') (\<lambda>kty.
       and_then (get_prop ''k.publicKeyJwk.crv'' publicKeyJwk ''crv'') (\<lambda>crv.
         if kty = JStr ''EC'' \<and> crv = JStr ''secp256k1'' then Inr Secp256k1KeyPair
         else if kty = JStr ''OKP'' \<and> crv = JStr ''Ed25519'' then Inr Ed25519KeyPair
         else if kty = JStr ''OKP'' \<and> crv = JStr ''X25519'' then Inr X25519KeyPair
         else if kty = JStr ''EC'' \<and> crv = JStr ''BLS12381_G1'' then Inr Bls12381G1KeyPair
         else if kty = JStr ''EC'' \<and> crv = JStr ''BLS12381_G2'' then Inr Bls12381G2KeyPair
         else Inr WebCryptoKey)))
     else Inl (Error ''getKeyPairClassFromKey only supports JsonWebKey2020''))"

section \<open>The cross-representation converter\<close>

text \<open>
  \<^verbatim>\<open>vms.find((v) => v.id === k.id)\<close>: the first element whose id is strictly equal to the
  key's, \<^verbatim>\<open>undefined\<close> when there is none. The callback reads both ids at every element.
\<close>

fun find_by_id :: "jsval list \<Rightarrow> jsval \<Rightarrow> error + jsval" where
  "find_by_id [] k = Inr JUndefined"
| "find_by_id (v # vs) k =
     and_then (get_prop ''v.id'' v ''id'') (\<lambda>v_id.
     and_then (get_prop ''k.id'' k ''id'') (\<lambda>k_id.
       if strict_eq v_id k_id then Inr v else find_by_id vs k))"

text \<open>\<^verbatim>\<open>representation.didDocument.verificationMethod.find(...)\<close>.\<close>

definition find_verificationMethod :: "DidResolution \<Rightarrow> jsval \<Rightarrow> error + jsval" where
  "find_verificationMethod representation k =
     and_then (get_prop ''didDocument.verificationMethod'' (resolved representation) ''verificationMethod'')
       (\<lambda>vms. case vms of
                 JArr vs \<Rightarrow> find_by_id vs k
               | _ \<Rightarrow> Inl (TypeError ''didDocument.verificationMethod.find''))"

text \<open>The body of the callback that \<^verbatim>\<open>convert\<close> maps over the keys.\<close>

definition convert_key ::
  "('g, 'r, 'h) handlers \<Rightarrow> DidResolution \<Rightarrow> DidResolution \<Rightarrow> jsval \<Rightarrow> error + jsval" where
  "convert_key H oldRepresentation newRepresentation k =
     and_then (find_verificationMethod newRepresentation k) (\<lambda>vm.
     and_then (find_verificationMethod oldRepresentation k) (\<lambda>vmAsJson.
     and_then (getKeyPairClassFromKey vmAsJson) (\<lambda>KeyPair.
     and_then (KeyPair_from H KeyPair k) (\<lambda>k1.
     and_then (get_prop ''vm.type'' vm ''type'') (\<lambda>vm_type.
       KeyPair_export H k1 (JObj [(''type'', vm_type), (''privateKey'', JBool True)]))))))"

text \<open>
  \<^verbatim>\<open>await Promise.all(promises)\<close>: the list of results when every promise is fulfilled.
  When some are rejected, \<^verbatim>\<open>Promise.all\<close> rejects with the failure of the one that is
  rejected first in time, which the timing of the handlers decides and the source does not.
  A failure of a whole call is therefore a list: the call rejects with one of its elements.
  Here it is the failures of all the rejected promises, in the order of the keys.
\<close>

fun rejections :: "(error + 'a) list \<Rightarrow> error list" where
  "rejections [] = []"
| "rejections (Inl e # rs) = e # rejections rs"
| "rejections (Inr y # rs) = rejections rs"

fun fulfilled :: "(error + 'a) list \<Rightarrow> 'a list" where
  "fulfilled [] = []"
| "fulfilled (Inl e # rs) = fulfilled rs"
| "fulfilled (Inr y # rs) = y # fulfilled rs"

definition Promise_all :: "(error + 'a) list \<Rightarrow> error list + 'a list" where
  "Promise_all promises =
     (if rejections promises = [] then Inr (fulfilled promises) else Inl (rejections promises))"

text \<open>A step of \<^verbatim>\<open>convert\<close> before \<^verbatim>\<open>Promise.all\<close>: its failure is the failure of the call.\<close>

definition await :: "error + 'a \<Rightarrow> ('a \<Rightarrow> error list + 'b) \<Rightarrow> error list + 'b" where
  "await m f = (case m of Inl e \<Rightarrow> Inl [e] | Inr v \<Rightarrow> f v)"

text \<open>\<^verbatim>\<open>resolve(keys[0].controller, ...)\<close>: only a string has \<^verbatim>\<open>substring\<close>.\<close>

definition resolve_controller ::
  "('g, 'r, 'h) handlers \<Rightarrow> jsval \<Rightarrow> jsval \<Rightarrow> error + DidResolution" where
  "resolve_controller H controller resolutionOptions =
     (case controller of
        JStr did \<Rightarrow> resolve H did resolutionOptions
      | _ \<Rightarrow> Inl (TypeError ''did.substring''))"

definition convert ::
  "('g, 'r, 'h) handlers \<Rightarrow> jsval list \<Rightarrow> jsval \<Rightarrow> error list + DidGeneration" where
  "convert H input_keys resolutionOptions =
     await (get_prop ''keys[0].controller'' (case input_keys of [] \<Rightarrow> JUndefined | k # ks \<Rightarrow> k) ''controller'')
       (\<lambda>controller.
     await (resolve_controller H controller (JObj [(''accept'', JStr ''application/did+json'')]))
       (\<lambda>oldRepresentation.
     await (resolve_controller H controller resolutionOptions) (\<lambda>newRepresentation.
       case Promise_all (map (convert_key H oldRepresentation newRepresentation) input_keys) of
         Inl failures \<Rightarrow> Inl failures
       | Inr converted \<Rightarrow> Inr \<lparr>keys = converted, didDocument = resolved newRepresentation\<rparr>)))"

section \<open>Definitions used to state the properties\<close>

text \<open>The value of a property of an object, \<^verbatim>\<open>undefined\<close> when there is none.\<close>

definition field :: "jsval \<Rightarrow> string \<Rightarrow> jsval" where
  "field v p =
     (case v of
        JObj ps \<Rightarrow> (case map_of ps p of Some x \<Rightarrow> x | None \<Rightarrow> JUndefined)
      | _ \<Rightarrow> JUndefined)"

text \<open>
  The key id in the specification's priority order: \<^verbatim>\<open>options.kid\<close> if present, else the
  \<^verbatim>\<open>kid\<close> of the public JWK if present, else the last colon-delimited segment of the
  key's controller. Present is what JavaScript's \<^verbatim>\<open>||\<close> takes: a value other than
  \<^verbatim>\<open>undefined\<close>, \<^verbatim>\<open>null\<close>, \<^verbatim>\<open>false\<close>, \<^verbatim>\<open>0\<close> and the empty string.
\<close>

definition chosen_kid :: "'z options_scheme \<Rightarrow> jsval \<Rightarrow> jsval \<Rightarrow> jsval option" where
  "chosen_kid options publicKeyJwk key =
     (if truthy (kid options) then Some (kid options)
      else if truthy (field publicKeyJwk ''kid'') then Some (field publicKeyJwk ''kid'')
      else case field key ''controller'' of
             JStr c \<Rightarrow> Some (JStr (split_pop c))
           | _ \<Rightarrow> None)"

text \<open>
  The DID of the specification: \<^verbatim>\<open>did:jwk:\<close> followed by the base64url encoding of
  \<^verbatim>\<open>JSON.stringify({kid, ...publicKeyJwk})\<close>.
\<close>

definition did_of :: "('g, 'r, 'h) handlers \<Rightarrow> jsval \<Rightarrow> jsval \<Rightarrow> string" where
  "did_of H publicKeyJwk kid_value =
     ''did:jwk:'' @
     base64url_encode H (JSON_stringify H (JObj (spread [(''kid'', kid_value)] publicKeyJwk)))"


text \<open>
  The source does not say which DID prefix belongs to which key type. The association below
  is the one of the did:key method, whose identifiers start with the multibase encoding of
  the key type's multicodec code; the two tables of the source list the types and the
  prefixes in this same order.
\<close>

definition prefixes_of_type :: "string \<Rightarrow> string list" where
  "prefixes_of_type t =
     (if t = ''ed25519'' then [''did:key:z6Mk'']
      else if t = ''x25519'' then [''did:key:z6LS'']
      else if t = ''secp256k1'' then [''did:key:zQ3s'']
      else if t = ''bls12381'' then [''did:key:z5Tc'', ''did:key:zUC7'']
      else if t = ''secp256r1'' then [''did:key:zDna'']
      else if t = ''secp384r1'' then [''did:key:z82L'']
      else if t = ''secp521r1'' then [''did:key:z2J9'']
      else [])"

text \<open>
  The five curve-specific rows of the classifier's dispatch table, as the specification
  lists them; every other pair is the generic web-crypto capability.
\<close>

definition classification_table :: "((jsval \<times> jsval) \<times> KeyPairClass) list" where
  "classification_table =
     [((JStr ''EC'', JStr ''secp256k1''), Secp256k1KeyPair),
      ((JStr ''OKP'', JStr ''Ed25519''), Ed25519KeyPair),
      ((JStr ''OKP'', JStr ''X25519''), X25519KeyPair),
      ((JStr ''EC'', JStr ''BLS12381_G1''), Bls12381G1KeyPair),
      ((JStr ''EC'', JStr ''BLS12381_G2''), Bls12381G2KeyPair)]"

section \<open>Example handlers\<close>

text \<open>
  A concrete set of handlers on which the theorems below are run. Every package generates
  the same Ed25519 key in JWK form unless it is asked for a NIST curve. A resolution lists
  one verification method, in the representation that \<^verbatim>\<open>accept\<close> asks for, and none for
  an \<^verbatim>\<open>accept\<close> it does not know. A key pair is imported as it is, provided it has a private
  key, and exported under the type asked for.
\<close>

definition example_key :: jsval where
  "example_key = JObj
     [(''id'', JStr ''did:key:z6MkpT#z6MkpT''),
      (''type'', JStr ''JsonWebKey2020''),
      (''controller'', JStr ''did:key:z6MkpT''),
      (''publicKeyJwk'', JObj [(''kty'', JStr ''OKP''), (''crv'', JStr ''Ed25519''), (''x'', JStr ''G80i'')]),
      (''privateKeyJwk'', JObj [(''kty'', JStr ''OKP''), (''crv'', JStr ''Ed25519''), (''x'', JStr ''G80i''), (''d'', JStr ''Lq4x'')])]"

definition example_generate :: "handler_module \<Rightarrow> 'g correct_options \<Rightarrow> 'r \<Rightarrow> error + DidGeneration" where
  "example_generate m opts ro =
     (case opts of
        KtyCrv k c \<Rightarrow>
          Inr \<lparr>keys = [JObj [(''id'', JStr ''did:key:zDnaer#zDnaer''),
                             (''type'', JStr ''JsonWebKey2020''),
                             (''controller'', JStr ''did:key:zDnaer''),
                             (''publicKeyJwk'', JObj [(''kty'', JStr k), (''crv'', JStr c)])]],
               didDocument = JObj [(''id'', JStr ''did:key:zDnaer'')]\<rparr>
      | Caller g \<Rightarrow>
          Inr \<lparr>keys = [example_key], didDocument = JObj [(''id'', JStr ''did:key:z6MkpT'')]\<rparr>)"

definition example_accept_json :: jsval where
  "example_accept_json = JObj [(''accept'', JStr ''application/did+json'')]"

definition example_accept_ld :: jsval where
  "example_accept_ld = JObj [(''accept'', JStr ''application/did+ld+json'')]"


definition example_resolve :: "handler_module \<Rightarrow> string \<Rightarrow> jsval \<Rightarrow> error + DidResolution" where
  "example_resolve m did ro =
     Inr (DidResolution (JObj
       [(''id'', JStr did),
        (''verificationMethod'',
           if ro = example_accept_json then
             JArr [JObj [(''id'', JStr (did @ ''#'' @ split_pop did)),
                         (''type'', JStr ''JsonWebKey2020''),
                         (''controller'', JStr did),
                         (''publicKeyJwk'',
                            JObj [(''kty'', JStr ''OKP''), (''crv'', JStr ''Ed25519''),
                                  (''x'', JStr ''G80i'')])]]
           else if ro = example_accept_ld then
             JArr [JObj [(''id'', JStr (did @ ''#'' @ split_pop did)),
                         (''type'', JStr ''Ed25519VerificationKey2018''),
                         (''controller'', JStr did),
                         (''publicKeyBase58'', JStr ''2uahW'')]]
           else JArr [])]))"

definition example_from :: "KeyPairClass \<Rightarrow> jsval \<Rightarrow> error + jsval" where
  "example_from c k =
     (if field k ''privateKeyJwk'' = JUndefined then Inl (Error ''no private key'') else Inr k)"

definition example_export :: "jsval \<Rightarrow> jsval \<Rightarrow> error + jsval" where
  "example_export k1 opts = Inr (JObj (define_prop (own_props k1) ''type'' (field opts ''type'')))"

text \<open>
  \<^verbatim>\<open>JSON.stringify\<close> on an object whose property names are not array indices (which
  JavaScript would list first) and whose values are strings that need no escaping, and the
  unpadded base64url encoding of a string of 8-bit characters. The examples stay within
  these objects.
\<close>

definition quoted :: "string \<Rightarrow> string" where
  "quoted s = [CHR 0x22] @ s @ [CHR 0x22]"

fun comma_join :: "string list \<Rightarrow> string" where
  "comma_join [] = []"
| "comma_join [x] = x"
| "comma_join (x # y # xs) = x @ '','' @ comma_join (y # xs)"

definition example_stringify :: "jsval \<Rightarrow> string" where
  "example_stringify v =
     ''{'' @
     comma_join
       (map (\<lambda>kv. quoted (fst kv) @ '':'' @ (case snd kv of JStr s \<Rightarrow> quoted s | _ \<Rightarrow> ''null''))
          (filter (\<lambda>kv. snd kv \<noteq> JUndefined) (own_props v))) @
     ''}''"

definition base64url_alphabet :: string where
  "base64url_alphabet = ''ABCDEFGHIJKLMNOPQRSTUVWXYZabcdefghijklmnopqrstuvwxyz0123456789-_''"

fun base64url_bytes :: "nat list \<Rightarrow> string" where
  "base64url_bytes (a # b # c # bs) =
     [base64url_alphabet ! (a div 4),
      base64url_alphabet ! ((a mod 4) * 16 + b div 16),
      base64url_alphabet ! ((b mod 16) * 4 + c div 64),
      base64url_alphabet ! (c mod 64)] @ base64url_bytes bs"
| "base64url_bytes [a, b] =
     [base64url_alphabet ! (a div 4),
      base64url_alphabet ! ((a mod 4) * 16 + b div 16),
      base64url_alphabet ! ((b mod 16) * 4)]"
| "base64url_bytes [a] =
     [base64url_alphabet ! (a div 4),
      base64url_alphabet ! ((a mod 4) * 16)]"
| "base64url_bytes [] = []"

definition example_encode :: "string \<Rightarrow> string" where
  "example_encode s = base64url_bytes (map of_char s)"

definition example_handlers :: "(secure_random, options, jsval) handlers" where
  "example_handlers =
     \<lparr>module_generate = example_generate,
      module_resolve = example_resolve,
      KeyPair_from = example_from,
      KeyPair_export = example_export,
      JSON_stringify = example_stringify,
      base64url_encode = example_encode\<rparr>"

definition example_options :: options where
  "example_options = \<lparr>type = ''ed25519'', seed = JStr ''00'', kid = JUndefined\<rparr>"

text \<open>What \<^verbatim>\<open>generate2\<close> returns on the example.\<close>

definition example_did :: string where
  "example_did = ''did:jwk:eyJraWQiOiJ6Nk1rcFQiLCJrdHkiOiJPS1AiLCJjcnYiOiJFZDI1NTE5IiwieCI6Ikc4MGkifQ''"

definition example_result :: DidGeneration where
  "example_result =
     \<lparr>keys =
        [JObj
          [(''id'', JStr ''did:key:z6MkpT#z6MkpT''),
           (''controller'', JStr ''did:key:z6MkpT''),
           (''type'', JStr ''JsonWebKey2020''),
           (''publicKeyJwk'',
              JObj [(''kty'', JStr ''OKP''), (''crv'', JStr ''Ed25519''), (''x'', JStr ''G80i'')]),
           (''privateKeyJwk'',
              JObj [(''kty'', JStr ''OKP''), (''crv'', JStr ''Ed25519''), (''x'', JStr ''G80i''),
                    (''d'', JStr ''Lq4x'')])]],
      didDocument =
        JObj
          [(''id'', JStr example_did),
           (''verificationMethod'',
              JArr [JObj [(''id'', JStr example_did),
                          (''type'', JStr ''JsonWebKey2020''),
                          (''controller'', JStr example_did),
                          (''publicKeyJwk'',
                             JObj [(''kid'', JStr ''z6MkpT''), (''kty'', JStr ''OKP''),
                                   (''crv'', JStr ''Ed25519''), (''x'', JStr ''G80i'')])]]),
           (''authentication'', JArr [JStr example_did]),
           (''capabilityInvocation'', JArr [JStr example_did]),
           (''capabilityDelegation'', JArr [JStr example_did]),
           (''keyAgreement'', JArr [JStr example_did])]\<rparr>"

text \<open>The same handlers, except that generation returns no key.\<close>

definition no_key_handlers :: "(secure_random, options, jsval) handlers" where
  "no_key_handlers =
     example_handlers\<lparr>module_generate := (\<lambda>m opts ro. Inr \<lparr>keys = [], didDocument = JNull\<rparr>)\<rparr>"

definition example_vm :: "string \<Rightarrow> string \<Rightarrow> string \<Rightarrow> jsval" where
  "example_vm t k c = JObj
     [(''id'', JStr ''did:key:zDnaer#zDnaer''),
      (''type'', JStr t),
      (''controller'', JStr ''did:key:zDnaer''),
      (''publicKeyJwk'', JObj [(''kty'', JStr k), (''crv'', JStr c), (''x'', JStr ''igrF'')])]"

text \<open>
  Keys for \<^verbatim>\<open>convert\<close>: one with the id of the example key and the controller of another
  DID, one without its private part, one whose id no resolution lists.
\<close>

definition foreign_key :: jsval where
  "foreign_key = JObj
     [(''id'', JStr ''did:key:z6MkpT#z6MkpT''),
      (''type'', JStr ''JsonWebKey2020''),
      (''controller'', JStr ''did:key:zQ3shX''),
      (''publicKeyJwk'', JObj [(''kty'', JStr ''OKP''), (''crv'', JStr ''Ed25519''), (''x'', JStr ''G80i'')]),
      (''privateKeyJwk'', JObj [(''kty'', JStr ''OKP''), (''crv'', JStr ''Ed25519''), (''x'', JStr ''G80i''), (''d'', JStr ''Lq4x'')])]"




definition example_ld_resolution :: DidResolution where
  "example_ld_resolution = DidResolution (JObj
     [(''id'', JStr ''did:key:z6MkpT''),
      (''verificationMethod'',
         JArr [JObj [(''id'', JStr ''did:key:z6MkpT#z6MkpT''),
                     (''type'', JStr ''Ed25519VerificationKey2018''),
                     (''controller'', JStr ''did:key:z6MkpT''),
                     (''publicKeyBase58'', JStr ''2uahW'')]])])"


text \<open>The same handlers, except that only the example DID resolves.\<close>

definition one_did_handlers :: "(secure_random, options, jsval) handlers" where
  "one_did_handlers =
     example_handlers\<lparr>module_resolve :=
       (\<lambda>m did ro. if did = ''did:key:z6MkpT'' then example_resolve m did ro
                    else Inl (Error ''notFound''))\<rparr>"

text \<open>What \<^verbatim>\<open>convert\<close> returns on the example key and the foreign key.\<close>

definition example_converted :: DidGeneration where
  "example_converted =
     \<lparr>keys =
        [JObj
          [(''id'', JStr ''did:key:z6MkpT#z6MkpT''),
           (''type'', JStr ''Ed25519VerificationKey2018''),
           (''controller'', JStr ''did:key:z6MkpT''),
           (''publicKeyJwk'',
              JObj [(''kty'', JStr ''OKP''), (''crv'', JStr ''Ed25519''), (''x'', JStr ''G80i'')]),
           (''privateKeyJwk'',
              JObj [(''kty'', JStr ''OKP''), (''crv'', JStr ''Ed25519''), (''x'', JStr ''G80i''),
                    (''d'', JStr ''Lq4x'')])],
         JObj
          [(''id'', JStr ''did:key:z6MkpT#z6MkpT''),
           (''type'', JStr ''Ed25519VerificationKey2018''),
           (''controller'', JStr ''did:key:zQ3shX''),
           (''publicKeyJwk'',
              JObj [(''kty'', JStr ''OKP''), (''crv'', JStr ''Ed25519''), (''x'', JStr ''G80i'')]),
           (''privateKeyJwk'',
              JObj [(''kty'', JStr ''OKP''), (''crv'', JStr ''Ed25519''), (''x'', JStr ''G80i''),
                    (''d'', JStr ''Lq4x'')])]],
      didDocument = resolved example_ld_resolution\<rparr>"

section \<open>Properties of the dispatcher\<close>

lemma typeMap_cases:
  "(t, m) \<in> set typeMap \<Longrightarrow>
   (t = ''ed25519'' \<and> m = ed25519) \<or> (t = ''x25519'' \<and> m = x25519) \<or>
   (t = ''secp256k1'' \<and> m = secp256k1) \<or> (t = ''bls12381'' \<and> m = bls12381) \<or>
   (t = ''secp256r1'' \<and> m = web) \<or> (t = ''secp384r1'' \<and> m = web) \<or>
   (t = ''secp521r1'' \<and> m = web)"
  by (simp add: typeMap_def)

lemma generate_registered:
  "(t, m) \<in> set typeMap \<Longrightarrow>
   generate H t g r =
     module_generate H m
       (if t = ''secp256r1'' then KtyCrv ''EC'' ''P-256''
        else if t = ''secp384r1'' then KtyCrv ''EC'' ''P-384''
        else if t = ''secp521r1'' then KtyCrv ''EC'' ''P-521''
        else Caller g) r"
  by (auto simp: typeMap_def table_get_def generate_def noSupportForSeed_def
      getOptionsForType_def and_then_def)

lemma registered_prefixes:
  "fst ` set startsWithMap =
     {''did:key:z6Mk'', ''did:key:z6LS'', ''did:key:zQ3s'', ''did:key:z5Tc'',
      ''did:key:zUC7'', ''did:key:zDna'', ''did:key:z82L'', ''did:key:z2J9''}"
  by (simp add: startsWithMap_def)

lemma resolve_registered:
  "map_of startsWithMap (take 12 did) = Some m \<Longrightarrow> resolve H did ro = module_resolve H m did ro"
  by (simp add: resolve_def table_get_def)

lemma resolve_unregistered:
  "map_of startsWithMap (take 12 did) = None \<Longrightarrow>
   resolve H did ro =
     Inl (if take 12 did \<in> set object_prototype_names
          then TypeError ''startsWithMap[startsWith].resolve''
          else Error (''did-key.js does not support: '' @ take 12 did @ ''...''))"
  by (simp add: resolve_def table_get_def)

lemma prefixes_registered:
  "(t, m) \<in> set typeMap \<Longrightarrow> p \<in> set (prefixes_of_type t) \<Longrightarrow> map_of startsWithMap p = Some m"
  by (drule typeMap_cases, elim disjE conjE) (auto simp: prefixes_of_type_def startsWithMap_def)

lemma prefixes_nonempty:
  "(t, m) \<in> set typeMap \<Longrightarrow> prefixes_of_type t \<noteq> []"
  by (drule typeMap_cases, elim disjE conjE) (simp_all add: prefixes_of_type_def)

text \<open>
  Claim C3. For each of the three NIST curve types \<^verbatim>\<open>secp256r1\<close>, \<^verbatim>\<open>secp384r1\<close> and
  \<^verbatim>\<open>secp521r1\<close>, \<^verbatim>\<open>generate\<close> drops the caller's options and calls the registered handler
  with the fixed descriptor \<^verbatim>\<open>{kty: 'EC', crvOrSize: 'P-256' | 'P-384' | 'P-521'}\<close>; for every
  other registered type it calls the registered handler with the caller's options
  unchanged. The resolution options are passed on in both cases.
\<close>

theorem generate_options_for_type:
  "(t, m) \<in> set typeMap \<Longrightarrow>
   generate H t opts ro =
     module_generate H m
       (if t = ''secp256r1'' then KtyCrv ''EC'' ''P-256''
        else if t = ''secp384r1'' then KtyCrv ''EC'' ''P-384''
        else if t = ''secp521r1'' then KtyCrv ''EC'' ''P-521''
        else Caller opts) ro"
  by (rule generate_registered)

theorem generate_options_for_type_witness:
  "(''secp384r1'', web) \<in> set typeMap \<and>
   generate example_handlers ''secp384r1'' (SecureRandom (JStr ''00'')) example_options =
     module_generate example_handlers web (KtyCrv ''EC'' ''P-384'') example_options \<and>
   (''ed25519'', ed25519) \<in> set typeMap \<and>
   generate example_handlers ''ed25519'' (SecureRandom (JStr ''00'')) example_options =
     module_generate example_handlers ed25519 (Caller (SecureRandom (JStr ''00''))) example_options"
proof -
  have nist: "(''secp384r1'', web) \<in> set typeMap"
    by (simp add: typeMap_def)
  have ed: "(''ed25519'', ed25519) \<in> set typeMap"
    by (simp add: typeMap_def)
  show ?thesis
    using nist ed
      generate_options_for_type [OF nist, of example_handlers "SecureRandom (JStr ''00'')" example_options]
      generate_options_for_type [OF ed, of example_handlers "SecureRandom (JStr ''00'')" example_options]
    by simp
qed

text \<open>
  What \<^verbatim>\<open>resolve\<close> does on every DID: it looks at the first 12 characters only, forwards
  the full DID and the options to the handler of a registered prefix, and fails without
  reaching a handler on any other.
\<close>

lemma resolve_on_prefix:
  "resolve H did ro =
     (case map_of startsWithMap (take 12 did) of
        Some m \<Rightarrow> module_resolve H m did ro
      | None \<Rightarrow>
          Inl (if take 12 did \<in> set object_prototype_names
               then TypeError ''startsWithMap[startsWith].resolve''
               else Error (''did-key.js does not support: '' @ take 12 did @ ''...'')))"
  by (simp add: resolve_registered resolve_unregistered split: option.splits)

text \<open>
  Claim C4. \<^verbatim>\<open>resolve\<close> is to fail with the unsupported-prefix error exactly when the first
  12 characters of the DID are not one of the eight registered prefixes. The source does
  not: on the DID \<^verbatim>\<open>toString\<close>, whose first 12 characters are not registered, the guard
  \<^verbatim>\<open>!startsWithMap[startsWith]\<close> finds the function that every object inherits, does not
  raise \<^verbatim>\<open>did-key.js does not support: toString...\<close>, and the call of its missing
  \<^verbatim>\<open>resolve\<close> raises a runtime error instead. The same happens on \<^verbatim>\<open>constructor\<close>,
  \<^verbatim>\<open>valueOf\<close> and \<^verbatim>\<open>__proto__\<close>.
\<close>

theorem resolve_inherited_name:
  "take 12 ''toString'' \<notin> fst ` set startsWithMap \<and>
   resolve H ''toString'' ro = Inl (TypeError ''startsWithMap[startsWith].resolve'') \<and>
   resolve H ''toString'' ro \<noteq> Inl (Error (''did-key.js does not support: '' @ take 12 ''toString'' @ ''...'')) \<and>
   resolve H ''constructor'' ro = Inl (TypeError ''startsWithMap[startsWith].resolve'') \<and>
   resolve H ''valueOf'' ro = Inl (TypeError ''startsWithMap[startsWith].resolve'') \<and>
   resolve H ''__proto__'' ro = Inl (TypeError ''startsWithMap[startsWith].resolve'')"
  by (simp add: resolve_on_prefix startsWithMap_def object_prototype_names_def)

text \<open>
  Claim C9. For every key type registered in \<^verbatim>\<open>typeMap\<close>, the handler package that
  \<^verbatim>\<open>generate\<close> calls for the type is the package registered in \<^verbatim>\<open>startsWithMap\<close> for each
  of the type's DID prefixes (and the type has at least one), so that \<^verbatim>\<open>resolve\<close> of any DID
  that starts with such a prefix calls that same package.
\<close>

theorem generate_resolve_same_handler:
  "(t, m) \<in> set typeMap \<Longrightarrow>
   prefixes_of_type t \<noteq> [] \<and>
   (\<exists>g'. generate H t g r = module_generate H m g' r) \<and>
   (\<forall>p \<in> set (prefixes_of_type t).
      map_of startsWithMap p = Some m \<and>
      (\<forall>did. take 12 did = p \<longrightarrow> resolve H did ro = module_resolve H m did ro))"
proof (intro conjI ballI allI impI)
  assume tm: "(t, m) \<in> set typeMap"
  show "prefixes_of_type t \<noteq> []"
    using tm by (rule prefixes_nonempty)
  show "\<exists>g'. generate H t g r = module_generate H m g' r"
    by (rule exI, rule generate_registered [OF tm])
  fix p
  assume p: "p \<in> set (prefixes_of_type t)"
  show reg: "map_of startsWithMap p = Some m"
    using tm p by (rule prefixes_registered)
  fix did :: string
  assume "take 12 did = p"
  with reg show "resolve H did ro = module_resolve H m did ro"
    by (simp add: resolve_registered)
qed

theorem generate_resolve_same_handler_witness:
  "(''bls12381'', bls12381) \<in> set typeMap \<and>
   prefixes_of_type ''bls12381'' = [''did:key:z5Tc'', ''did:key:zUC7''] \<and>
   map_of startsWithMap ''did:key:z5Tc'' = Some bls12381 \<and>
   map_of startsWithMap ''did:key:zUC7'' = Some bls12381 \<and>
   resolve example_handlers ''did:key:zUC7Eq'' example_accept_json =
     module_resolve example_handlers bls12381 ''did:key:zUC7Eq'' example_accept_json"
proof -
  have tm: "(''bls12381'', bls12381) \<in> set typeMap"
    by (simp add: typeMap_def)
  have ps: "prefixes_of_type ''bls12381'' = [''did:key:z5Tc'', ''did:key:zUC7'']"
    by (simp add: prefixes_of_type_def)
  show ?thesis
    using tm ps
      generate_resolve_same_handler [OF tm, of example_handlers "SecureRandom JNull"
        example_options example_accept_json]
    by simp
qed

section \<open>Properties of the curve classifier\<close>

text \<open>
  Claim C5. The classifier fails on every verification method whose \<^verbatim>\<open>type\<close> is not
  \<^verbatim>\<open>JsonWebKey2020\<close>. On one whose type is \<^verbatim>\<open>JsonWebKey2020\<close> and that has a
  \<^verbatim>\<open>publicKeyJwk\<close>, it returns the key-pair class of the dispatch table when the pair
  \<^verbatim>\<open>(kty, crv)\<close> is one of its five rows, and the generic web-crypto class for every other
  pair; it does not fail there.
\<close>

theorem getKeyPairClassFromKey_table:
  "(get_prop ''k.type'' vm ''type'' \<noteq> Inr (JStr ''JsonWebKey2020'') \<longrightarrow>
      (\<exists>e. getKeyPairClassFromKey vm = Inl e)) \<and>
   (get_prop ''k.type'' vm ''type'' = Inr (JStr ''JsonWebKey2020'') \<longrightarrow>
    get_prop ''k.publicKeyJwk'' vm ''publicKeyJwk'' = Inr publicKeyJwk \<longrightarrow>
    get_prop ''k.publicKeyJwk.kty'' publicKeyJwk ''kty'' = Inr kty_value \<longrightarrow>
    get_prop ''k.publicKeyJwk.crv'' publicKeyJwk ''crv'' = Inr crv_value \<longrightarrow>
      getKeyPairClassFromKey vm =
        Inr (case map_of classification_table (kty_value, crv_value) of
               Some c \<Rightarrow> c
             | None \<Rightarrow> WebCryptoKey))"
  by (auto simp: getKeyPairClassFromKey_def and_then_def classification_table_def
      split: sum.splits)

theorem getKeyPairClassFromKey_table_witness:
  "getKeyPairClassFromKey (example_vm ''JsonWebKey2020'' ''EC'' ''P-256'') = Inr WebCryptoKey \<and>
   getKeyPairClassFromKey (example_vm ''JsonWebKey2020'' ''EC'' ''BLS12381_G2'') = Inr Bls12381G2KeyPair \<and>
   (\<exists>e. getKeyPairClassFromKey (example_vm ''Ed25519VerificationKey2018'' ''OKP'' ''Ed25519'') = Inl e)"
  using
    getKeyPairClassFromKey_table [of "example_vm ''JsonWebKey2020'' ''EC'' ''P-256''"
      "JObj [(''kty'', JStr ''EC''), (''crv'', JStr ''P-256''), (''x'', JStr ''igrF'')]"
      "JStr ''EC''" "JStr ''P-256''"]
    getKeyPairClassFromKey_table [of "example_vm ''JsonWebKey2020'' ''EC'' ''BLS12381_G2''"
      "JObj [(''kty'', JStr ''EC''), (''crv'', JStr ''BLS12381_G2''), (''x'', JStr ''igrF'')]"
      "JStr ''EC''" "JStr ''BLS12381_G2''"]
    getKeyPairClassFromKey_table [of "example_vm ''Ed25519VerificationKey2018'' ''OKP'' ''Ed25519''"]
  by (simp add: example_vm_def classification_table_def)

section \<open>Properties of the document synthesizer\<close>

lemma and_then_InrE:
  assumes "and_then m f = Inr y"
  obtains x where "m = Inr x" and "f x = Inr y"
  using assms by (cases m) (simp_all add: and_then_def)

lemma get_prop_eq:
  "get_prop e v p = (if v = JUndefined \<or> v = JNull then Inl (TypeError e) else Inr (field v p))"
  by (cases v) (simp_all add: field_def)

lemma first_key:
  "get_prop e (case xs of [] \<Rightarrow> JUndefined | k # ks \<Rightarrow> k) p = Inr v \<Longrightarrow>
   \<exists>k ks. xs = k # ks \<and> (case xs of [] \<Rightarrow> JUndefined | k # ks \<Rightarrow> k) = k"
  by (cases xs) simp_all

lemma kid_choice:
  "(if truthy (kid options) then Inr (kid options)
    else and_then (get_prop e1 publicKeyJwk ''kid'') (\<lambda>jwk_kid.
      if truthy jwk_kid then Inr jwk_kid
      else and_then (get_prop e2 key ''controller'') (\<lambda>controller.
        case controller of
          JStr c \<Rightarrow> Inr (JStr (split_pop c))
        | _ \<Rightarrow> Inl (TypeError e3)))) = Inr kid_value \<Longrightarrow>
   get_prop e0 key p0 = Inr publicKeyJwk \<Longrightarrow>
   chosen_kid options publicKeyJwk key = Some kid_value"
  by (auto simp: get_prop_eq chosen_kid_def and_then_def split: if_splits jsval.splits)

text \<open>Every successful run of \<^verbatim>\<open>generate2\<close>, step by step.\<close>

lemma generate2_success:
  "generate2 H options = Inr result \<Longrightarrow>
   \<exists>generated key ks publicKeyJwk kid_value.
     generate H (type options) (SecureRandom (seed options)) options = Inr generated \<and>
     keys generated = key # ks \<and>
     get_prop ''key.publicKeyJwk'' key ''publicKeyJwk'' = Inr publicKeyJwk \<and>
     chosen_kid options publicKeyJwk key = Some kid_value \<and>
     result =
       \<lparr>keys = [JObj (spread [(''id'', JStr (did_of H publicKeyJwk kid_value)),
                              (''controller'', JStr (did_of H publicKeyJwk kid_value))] key)],
        didDocument = JObj
          [(''id'', JStr (did_of H publicKeyJwk kid_value)),
           (''verificationMethod'',
              JArr [JObj [(''id'', JStr (did_of H publicKeyJwk kid_value)),
                          (''type'', JStr ''JsonWebKey2020''),
                          (''controller'', JStr (did_of H publicKeyJwk kid_value)),
                          (''publicKeyJwk'',
                             json_clone (JObj (spread [(''kid'', kid_value)] publicKeyJwk)))]]),
           (''authentication'', JArr [JStr (did_of H publicKeyJwk kid_value)]),
           (''capabilityInvocation'', JArr [JStr (did_of H publicKeyJwk kid_value)]),
           (''capabilityDelegation'', JArr [JStr (did_of H publicKeyJwk kid_value)]),
           (''keyAgreement'', JArr [JStr (did_of H publicKeyJwk kid_value)])]\<rparr>"
  apply (unfold generate2_def Let_def)
  apply (erule and_then_InrE)+
  apply (frule first_key)
  apply (elim exE conjE)
  apply (frule (1) kid_choice)
  apply (simp add: did_of_def)
  done

lemma example_generate2:
  "generate2 example_handlers example_options = Inr example_result"
  by code_simp

text \<open>
  Claim C6. On every successful call of \<^verbatim>\<open>generate2\<close>, the id of the returned document is
  \<^verbatim>\<open>did:jwk:\<close> followed by the base64url encoding of
  \<^verbatim>\<open>JSON.stringify({kid, ...publicKeyJwk})\<close>, where \<^verbatim>\<open>publicKeyJwk\<close> is that of the first
  key the handler returned and \<^verbatim>\<open>kid\<close> is chosen in the priority order \<^verbatim>\<open>options.kid\<close>,
  the \<^verbatim>\<open>kid\<close> of the public JWK, the last colon-delimited segment of that key's
  controller. The DID is a function of the public JWK and the chosen kid alone.
\<close>

theorem generate2_did:
  "generate2 H options = Inr result \<Longrightarrow>
   \<exists>generated key ks kid_value.
     generate H (type options) (SecureRandom (seed options)) options = Inr generated \<and>
     keys generated = key # ks \<and>
     chosen_kid options (field key ''publicKeyJwk'') key = Some kid_value \<and>
     field (didDocument result) ''id'' = JStr (did_of H (field key ''publicKeyJwk'') kid_value) \<and>
     did_of H (field key ''publicKeyJwk'') kid_value =
       ''did:jwk:'' @
       base64url_encode H
         (JSON_stringify H (JObj (spread [(''kid'', kid_value)] (field key ''publicKeyJwk''))))"
proof -
  assume "generate2 H options = Inr result"
  then obtain generated key ks publicKeyJwk kid_value where
    g: "generate H (type options) (SecureRandom (seed options)) options = Inr generated"
    and k: "keys generated = key # ks"
    and pk: "get_prop ''key.publicKeyJwk'' key ''publicKeyJwk'' = Inr publicKeyJwk"
    and kv: "chosen_kid options publicKeyJwk key = Some kid_value"
    and doc: "field (didDocument result) ''id'' = JStr (did_of H publicKeyJwk kid_value)"
    by (auto dest!: generate2_success simp: field_def)
  from pk have "publicKeyJwk = field key ''publicKeyJwk''"
    by (simp add: get_prop_eq split: if_splits)
  with g k kv doc show ?thesis
    by (auto simp: did_of_def)
qed

theorem generate2_did_witness:
  "generate2 example_handlers example_options = Inr example_result \<and>
   chosen_kid example_options (field example_key ''publicKeyJwk'') example_key = Some (JStr ''z6MkpT'') \<and>
   field (didDocument example_result) ''id'' =
     JStr ''did:jwk:eyJraWQiOiJ6Nk1rcFQiLCJrdHkiOiJPS1AiLCJjcnYiOiJFZDI1NTE5IiwieCI6Ikc4MGkifQ''"
  using example_generate2 generate2_did [OF example_generate2]
  by (simp add: example_result_def example_did_def field_def chosen_kid_def example_options_def
      example_key_def split_pop_def)

text \<open>
  Claim C7. On every successful call of \<^verbatim>\<open>generate2\<close>, the returned document has exactly
  one verification method; its type is \<^verbatim>\<open>JsonWebKey2020\<close>; its id and its controller are
  the id of the document, the DID itself with nothing appended; and each of
  \<^verbatim>\<open>authentication\<close>, \<^verbatim>\<open>capabilityInvocation\<close>, \<^verbatim>\<open>capabilityDelegation\<close> and
  \<^verbatim>\<open>keyAgreement\<close> is the one-element list of that DID.
\<close>

theorem generate2_document:
  "generate2 H options = Inr result \<Longrightarrow>
   \<exists>did vm.
     field (didDocument result) ''id'' = JStr did \<and>
     field (didDocument result) ''verificationMethod'' = JArr [vm] \<and>
     field vm ''type'' = JStr ''JsonWebKey2020'' \<and>
     field vm ''id'' = JStr did \<and>
     field vm ''controller'' = JStr did \<and>
     field (didDocument result) ''authentication'' = JArr [JStr did] \<and>
     field (didDocument result) ''capabilityInvocation'' = JArr [JStr did] \<and>
     field (didDocument result) ''capabilityDelegation'' = JArr [JStr did] \<and>
     field (didDocument result) ''keyAgreement'' = JArr [JStr did]"
  by (auto dest!: generate2_success simp: field_def)

theorem generate2_document_witness:
  "generate2 example_handlers example_options = Inr example_result \<and>
   field (didDocument example_result) ''id'' = JStr example_did \<and>
   (\<exists>vm. field (didDocument example_result) ''verificationMethod'' = JArr [vm] \<and>
         field vm ''type'' = JStr ''JsonWebKey2020'' \<and>
         field vm ''id'' = JStr example_did \<and>
         field vm ''controller'' = JStr example_did) \<and>
   field (didDocument example_result) ''authentication'' = JArr [JStr example_did] \<and>
   field (didDocument example_result) ''capabilityInvocation'' = JArr [JStr example_did] \<and>
   field (didDocument example_result) ''capabilityDelegation'' = JArr [JStr example_did] \<and>
   field (didDocument example_result) ''keyAgreement'' = JArr [JStr example_did]"
  using example_generate2 generate2_document [OF example_generate2]
  by (simp add: example_result_def field_def)

lemma map_of_define_prop: "map_of (define_prop ps k v) = (map_of ps)(k \<mapsto> v)"
  by (induction ps) (auto simp: fun_eq_iff)

lemma map_of_foldl_define_prop:
  "map_of (foldl (\<lambda>acc kv. define_prop acc (fst kv) (snd kv)) ps qs) = map_of ps ++ map_of (rev qs)"
proof (induction qs arbitrary: ps)
  case Nil
  show ?case by simp
next
  case (Cons q qs)
  have "map_of (define_prop ps (fst q) (snd q)) ++ map_of (rev qs) =
        map_of ps ++ (map_of [q] ++ map_of (rev qs))"
    by (cases q) (simp add: map_of_define_prop map_add_def fun_eq_iff split: option.splits)
  with Cons.IH [of "define_prop ps (fst q) (snd q)"] show ?case
    by simp
qed

lemma map_of_spread: "map_of (spread ps v) = map_of ps ++ map_of (rev (own_props v))"
  by (simp add: spread_def map_of_foldl_define_prop)

text \<open>
  The id and the controller of the key that \<^verbatim>\<open>generate2\<close> returns: the handler's key is
  spread after the two stamped properties, so its own id and controller win, and the DID
  is used only for a key that has none.
\<close>

lemma generate2_key_id:
  "generate2 H options = Inr result \<Longrightarrow>
   \<exists>generated key ks k'.
     generate H (type options) (SecureRandom (seed options)) options = Inr generated \<and>
     keys generated = key # ks \<and>
     keys result = [k'] \<and>
     field k' ''id'' =
       (case map_of (rev (own_props key)) ''id'' of
          Some v \<Rightarrow> v
        | None \<Rightarrow> field (didDocument result) ''id'') \<and>
     field k' ''controller'' =
       (case map_of (rev (own_props key)) ''controller'' of
          Some v \<Rightarrow> v
        | None \<Rightarrow> field (didDocument result) ''id'')"
proof -
  assume "generate2 H options = Inr result"
  from generate2_success [OF this] obtain generated key ks publicKeyJwk kid_value where
    g: "generate H (type options) (SecureRandom (seed options)) options = Inr generated"
    and k: "keys generated = key # ks"
    and r: "keys result = [JObj (spread [(''id'', JStr (did_of H publicKeyJwk kid_value)),
                              (''controller'', JStr (did_of H publicKeyJwk kid_value))] key)]"
    and d: "field (didDocument result) ''id'' = JStr (did_of H publicKeyJwk kid_value)"
    by (auto simp: field_def)
  let ?k' = "JObj (spread [(''id'', JStr (did_of H publicKeyJwk kid_value)),
                          (''controller'', JStr (did_of H publicKeyJwk kid_value))] key)"
  have i: "field ?k' ''id'' =
       (case map_of (rev (own_props key)) ''id'' of
          Some v \<Rightarrow> v
        | None \<Rightarrow> JStr (did_of H publicKeyJwk kid_value))"
    by (simp add: field_def map_of_spread map_add_def split: option.splits)
  have c: "field ?k' ''controller'' =
       (case map_of (rev (own_props key)) ''controller'' of
          Some v \<Rightarrow> v
        | None \<Rightarrow> JStr (did_of H publicKeyJwk kid_value))"
    by (simp add: field_def map_of_spread map_add_def split: option.splits)
  from g k r i c show ?thesis
    unfolding d by blast
qed

text \<open>
  Claim C1. Every key that a successful \<^verbatim>\<open>generate2\<close> returns is to carry the computed
  did:jwk DID as its id and as its controller, whatever the handler had set. The source
  does not do that: on the example, where the handler's key comes with the id
  \<^verbatim>\<open>did:key:z6MkpT#z6MkpT\<close> and the controller \<^verbatim>\<open>did:key:z6MkpT\<close>, the returned key
  still has both, and neither is the DID of the returned document.
\<close>

theorem generate2_keys_keep_handler_id:
  "generate2 example_handlers example_options = Inr example_result \<and>
   field (didDocument example_result) ''id'' = JStr example_did \<and>
   map (\<lambda>k. field k ''id'') (keys example_result) = [JStr ''did:key:z6MkpT#z6MkpT''] \<and>
   map (\<lambda>k. field k ''controller'') (keys example_result) = [JStr ''did:key:z6MkpT''] \<and>
   JStr ''did:key:z6MkpT#z6MkpT'' \<noteq> JStr example_did \<and>
   JStr ''did:key:z6MkpT'' \<noteq> JStr example_did"
  using example_generate2
  by (simp add: example_result_def example_did_def field_def)

text \<open>
  Claim C8. When the handler that \<^verbatim>\<open>generate2\<close> dispatches to returns an empty list of
  keys, \<^verbatim>\<open>generate2\<close> fails: the first key is \<^verbatim>\<open>undefined\<close> and reading its
  \<^verbatim>\<open>publicKeyJwk\<close> raises. This runtime error is the failure for missing key material; the
  source has no error of its own for it.
\<close>

theorem generate2_no_key:
  "generate H (type options) (SecureRandom (seed options)) options = Inr generated \<Longrightarrow>
   keys generated = [] \<Longrightarrow>
   generate2 H options = Inl (TypeError ''key.publicKeyJwk'')"
  by (simp add: generate2_def and_then_def)

theorem generate2_no_key_witness:
  "generate no_key_handlers (type example_options) (SecureRandom (seed example_options)) example_options
     = Inr \<lparr>keys = [], didDocument = JNull\<rparr> \<and>
   generate2 no_key_handlers example_options = Inl (TypeError ''key.publicKeyJwk'')"
proof -
  have g: "generate no_key_handlers (type example_options) (SecureRandom (seed example_options))
             example_options = Inr \<lparr>keys = [], didDocument = JNull\<rparr>"
    by (simp add: generate_def table_get_def typeMap_def noSupportForSeed_def and_then_def
        no_key_handlers_def example_options_def)
  show ?thesis
    using g generate2_no_key [OF g] by simp
qed

section \<open>Properties of the converter\<close>




lemma await_Inr: "await (Inr v) f = f v"
  by (simp add: await_def)

lemma get_prop_string: "field v p = JStr s \<Longrightarrow> get_prop e v p = Inr (JStr s)"
  by (cases v) (simp_all add: field_def)

lemma resolve_controller_string: "resolve_controller H (JStr did) ro = resolve H did ro"
  by (simp add: resolve_controller_def)









text \<open>\<^verbatim>\<open>convert\<close> on a list whose first key has a string as controller.\<close>

lemma convert_unfold:
  "field k0 ''controller'' = JStr did \<Longrightarrow>
   convert H (k0 # ks) ro =
     await (resolve H did (JObj [(''accept'', JStr ''application/did+json'')])) (\<lambda>oldRepresentation.
     await (resolve H did ro) (\<lambda>newRepresentation.
       case Promise_all (map (convert_key H oldRepresentation newRepresentation) (k0 # ks)) of
         Inl failures \<Rightarrow> Inl failures
       | Inr converted \<Rightarrow> Inr \<lparr>keys = converted, didDocument = resolved newRepresentation\<rparr>))"
  by (simp add: convert_def get_prop_string await_Inr resolve_controller_string)

lemma convert_empty: "convert H [] ro = Inl [TypeError ''keys[0].controller'']"
  by (simp add: convert_def await_def)

lemma resolve_cong:
  "(\<And>m ro'. module_resolve H m did ro' = module_resolve H' m did ro') \<Longrightarrow>
   resolve H did ro = resolve H' did ro"
  by (simp add: resolve_on_prefix split: option.splits)

lemma convert_key_cong:
  "KeyPair_from H = KeyPair_from H' \<Longrightarrow> KeyPair_export H = KeyPair_export H' \<Longrightarrow>
   convert_key H old new = convert_key H' old new"
  by (simp add: convert_key_def fun_eq_iff)











text \<open>
  Claim C10. \<^verbatim>\<open>convert\<close> on an empty list of keys fails on \<^verbatim>\<open>keys[0].controller\<close>,
  whatever the handlers are, so before any resolution. On a non-empty list it resolves the
  controller of the first key, twice, and converts every key of the list against these
  two resolutions; no other DID is resolved: handlers that agree on the resolutions of
  that one DID (and on the key-pair classes) give the same result.
\<close>

theorem convert_resolves_first_controller:
  "convert H [] ro = Inl [TypeError ''keys[0].controller''] \<and>
   (field k0 ''controller'' = JStr did \<longrightarrow>
      convert H (k0 # ks) ro =
        await (resolve H did (JObj [(''accept'', JStr ''application/did+json'')]))
          (\<lambda>oldRepresentation.
        await (resolve H did ro) (\<lambda>newRepresentation.
          case Promise_all (map (convert_key H oldRepresentation newRepresentation) (k0 # ks)) of
            Inl failures \<Rightarrow> Inl failures
          | Inr converted \<Rightarrow>
              Inr \<lparr>keys = converted, didDocument = resolved newRepresentation\<rparr>)) \<and>
      ((\<forall>m ro'. module_resolve H m did ro' = module_resolve H' m did ro') \<longrightarrow>
       KeyPair_from H = KeyPair_from H' \<longrightarrow>
       KeyPair_export H = KeyPair_export H' \<longrightarrow>
       convert H (k0 # ks) ro = convert H' (k0 # ks) ro))"
proof (intro conjI impI)
  show "convert H [] ro = Inl [TypeError ''keys[0].controller'']"
    by (rule convert_empty)
next
  assume "field k0 ''controller'' = JStr did"
  then show "convert H (k0 # ks) ro =
        await (resolve H did (JObj [(''accept'', JStr ''application/did+json'')]))
          (\<lambda>oldRepresentation.
        await (resolve H did ro) (\<lambda>newRepresentation.
          case Promise_all (map (convert_key H oldRepresentation newRepresentation) (k0 # ks)) of
            Inl failures \<Rightarrow> Inl failures
          | Inr converted \<Rightarrow>
              Inr \<lparr>keys = converted, didDocument = resolved newRepresentation\<rparr>))"
    by (rule convert_unfold)
next
  assume c: "field k0 ''controller'' = JStr did"
    and r: "\<forall>m ro'. module_resolve H m did ro' = module_resolve H' m did ro'"
    and f: "KeyPair_from H = KeyPair_from H'"
    and e: "KeyPair_export H = KeyPair_export H'"
  have rs: "resolve H did ro = resolve H' did ro" for ro
    by (rule resolve_cong) (simp add: r)
  from f e have ck: "\<And>old new. convert_key H old new = convert_key H' old new"
    by (rule convert_key_cong)
  show "convert H (k0 # ks) ro = convert H' (k0 # ks) ro"
    by (simp only: convert_unfold [OF c] rs ck)
qed

lemma example_convert:
  "convert example_handlers [example_key, foreign_key] example_accept_ld = Inr example_converted"
  by code_simp

lemma one_did_elsewhere:
  "resolve one_did_handlers ''did:key:zQ3shX'' example_accept_ld = Inl (Error ''notFound'')"
  by code_simp

theorem convert_resolves_first_controller_witness:
  "convert example_handlers [] example_accept_ld = Inl [TypeError ''keys[0].controller''] \<and>
   field example_key ''controller'' = JStr ''did:key:z6MkpT'' \<and>
   field foreign_key ''controller'' = JStr ''did:key:zQ3shX'' \<and>
   resolve one_did_handlers ''did:key:zQ3shX'' example_accept_ld = Inl (Error ''notFound'') \<and>
   convert example_handlers [example_key, foreign_key] example_accept_ld = Inr example_converted \<and>
   convert one_did_handlers [example_key, foreign_key] example_accept_ld = Inr example_converted"
proof -
  have c: "field example_key ''controller'' = JStr ''did:key:z6MkpT''"
    by (simp add: example_key_def field_def)
  have f: "field foreign_key ''controller'' = JStr ''did:key:zQ3shX''"
    by (simp add: foreign_key_def field_def)
  have r: "\<forall>m ro'. module_resolve example_handlers m ''did:key:z6MkpT'' ro' =
                   module_resolve one_did_handlers m ''did:key:z6MkpT'' ro'"
    by (simp add: one_did_handlers_def example_handlers_def)
  have fe: "KeyPair_from example_handlers = KeyPair_from one_did_handlers"
    by (simp add: one_did_handlers_def)
  have ee: "KeyPair_export example_handlers = KeyPair_export one_did_handlers"
    by (simp add: one_did_handlers_def)
  note inst = convert_resolves_first_controller [of example_handlers example_accept_ld
      example_key "''did:key:z6MkpT''" "[foreign_key]" one_did_handlers]
  note e0 = inst [THEN conjunct1]
  note eq = inst [THEN conjunct2, THEN mp, OF c, THEN conjunct2, THEN mp, OF r,
      THEN mp, OF fe, THEN mp, OF ee]
  have o1: "convert one_did_handlers [example_key, foreign_key] example_accept_ld =
      Inr example_converted"
    by (simp only: eq [symmetric] example_convert)
  show ?thesis
    by (simp only: e0 c f one_did_elsewhere example_convert o1 simp_thms)
qed

end
